theory Spec2Isabelle
  imports Complex_Main
begin

section \<open>Shared data: errors, qubits, gates\<close>

text \<open>
  The exceptions the two source files raise or let through.  Python floats are read as
  real numbers (rounding is not part of the model).
\<close>

datatype error =
    ZeroDivisionError
  | RuntimeError string
  | ValueError string
  | IndexError
  | AttributeError
  | QiskitError
  | AquaError string
  | KeyError

datatype qubit = Qubit string nat

datatype gate = H qubit | CX qubit qubit | CU1 real qubit qubit

text \<open>
  The value of a float expression that may have divided by zero: a real number, or one of
  the values \<open>inf\<close>, \<open>-inf\<close> and \<open>nan\<close> that numpy gives for such a division.
\<close>

datatype pyfloat = Finite real | PosInf | NegInf | NaN

text \<open>
  The division \<open>a / b\<close> of a Python float \<open>a\<close> by a number \<open>b\<close>; \<open>numpy\<close> tells whether \<open>b\<close>
  is a numpy scalar (\<open>numpy.float64\<close>).  By a Python number that is zero the division
  raises \<open>ZeroDivisionError\<close>; by a numpy zero (which is \<open>+0.0\<close> here) numpy takes over,
  warns and returns \<open>inf\<close>, \<open>-inf\<close> or \<open>nan\<close> by the sign of \<open>a\<close>.
\<close>

definition py_div :: "bool \<Rightarrow> real \<Rightarrow> real \<Rightarrow> error + pyfloat" where
  "py_div numpy a b =
     (if b = 0 then
        (if numpy then Inr (if 0 < a then PosInf else if a < 0 then NegInf else NaN)
         else Inl ZeroDivisionError)
      else Inr (Finite (a / b)))"

text \<open>
  qiskit's \<open>QuantumRegister(size, name)\<close>: the qubits \<open>name[0] .. name[size - 1]\<close>; the
  library refuses a size that is not positive.
\<close>

definition QuantumRegister :: "int \<Rightarrow> string \<Rightarrow> error + qubit list" where
  "QuantumRegister n name =
     (if n \<le> 0 then Inl QiskitError else Inr (map (Qubit name) [0..<nat n]))"

text \<open>\<open>register[j]\<close> for an index that is never negative in these files.\<close>

definition getitem :: "'a list \<Rightarrow> int \<Rightarrow> error + 'a" where
  "getitem xs i = (if 0 \<le> i \<and> i < int (length xs) then Inr (xs ! nat i) else Inl IndexError)"

section \<open>qpe.py: the QPE eigenvalue component\<close>

text \<open>
  A coefficient of a Pauli term is a number: a Python float or int (\<open>CReal\<close>), a Python
  complex (\<open>CComplex\<close>), or the numpy scalars \<open>numpy.float64\<close> (\<open>NReal\<close>) and
  \<open>numpy.complex128\<close> (\<open>NComplex\<close>), which an operator built from a matrix has.
  \<open>isinstance(p[0], complex)\<close> holds for both complex kinds.
\<close>

datatype coef = CReal real | CComplex complex | NReal real | NComplex complex

text \<open>The value of \<open>abs(p[0])\<close>; it is a numpy scalar exactly when \<open>p[0]\<close> is one.\<close>

fun py_abs :: "coef \<Rightarrow> real" where
  "py_abs (CReal r) = \<bar>r\<bar>"
| "py_abs (CComplex c) = cmod c"
| "py_abs (NReal r) = \<bar>r\<bar>"
| "py_abs (NComplex c) = cmod c"

fun is_numpy :: "coef \<Rightarrow> bool" where
  "is_numpy (CReal r) = False"
| "is_numpy (CComplex c) = False"
| "is_numpy (NReal r) = True"
| "is_numpy (NComplex c) = True"

text \<open>\<open>p[0].real if isinstance(p[0], complex) else p[0]\<close>\<close>

fun real_coef :: "coef \<Rightarrow> real" where
  "real_coef (CComplex c) = Re c"
| "real_coef (NComplex c) = Re c"
| "real_coef (CReal r) = r"
| "real_coef (NReal r) = r"

text \<open>A Pauli string, by its two bit patterns \<open>z\<close> and \<open>x\<close>.\<close>

record pauli =
  pauli_z :: "bool list"
  pauli_x :: "bool list"

text \<open>\<open>np.all(p[1].z == 0) and np.all(p[1].x == 0)\<close>\<close>

definition is_identity :: "pauli \<Rightarrow> bool" where
  "is_identity p = (list_all (\<lambda>b. \<not> b) (pauli_z p) \<and> list_all (\<lambda>b. \<not> b) (pauli_x p))"

text \<open>
  The fields of a \<open>QPE\<close> object.  \<open>operator\<close> is the operator's list of weighted Pauli
  terms (\<open>self._operator.paulis\<close>); \<open>'c\<close> is the type of the (inverse) QFT components;
  an attribute that has not been assigned yet is \<open>None\<close>.
\<close>

record 'c qpe =
  num_ancillae :: int
  iqft :: 'c
  operator :: "(coef \<times> pauli) list"
  num_time_slices :: int
  expansion_mode :: string
  expansion_order :: int
  evo_time :: "pyfloat option"
  use_basis_gates :: bool
  hermitian_matrix :: bool
  negative_evals :: bool
  ne_qfts :: "'c option \<times> 'c option"
  ancilla_phase_coef :: "real option"
  circuit :: "gate list option"
  output_register :: "qubit list option"
  input_register :: "qubit list option"

text \<open>
  The loop of \<open>_init_constants\<close> over the Pauli terms, with its counter
  \<open>num_identities\<close>.  An exception leaves the object as it is at that moment.
\<close>

fun identity_loop ::
  "(coef \<times> pauli) list \<Rightarrow> int \<Rightarrow> 'c qpe \<Rightarrow> (error + unit) \<times> 'c qpe"
where
  "identity_loop [] num_identities self = (Inr (), self)"
| "identity_loop (p # ps) num_identities self =
     (if is_identity (snd p) then
        (let num_identities = num_identities + 1 in
         if num_identities > 1 then
           (Inl (RuntimeError ''Multiple identity pauli terms are present.''), self)
         else identity_loop ps num_identities
                (self\<lparr>ancilla_phase_coef := Some (real_coef (fst p))\<rparr>))
      else identity_loop ps num_identities self)"

text \<open>
  \<open>sum([abs(p[0]) for p in self._operator.paulis])\<close>: its value, and whether it is a numpy
  scalar.  The sum starts from the Python int \<open>0\<close> and turns into a \<open>numpy.float64\<close> with
  the first numpy term added, so it is one exactly when some coefficient is.
\<close>

definition sum_abs :: "(coef \<times> pauli) list \<Rightarrow> real" where
  "sum_abs paulis = sum_list (map (\<lambda>p. py_abs (fst p)) paulis)"

definition sum_abs_numpy :: "(coef \<times> pauli) list \<Rightarrow> bool" where
  "sum_abs_numpy paulis = list_ex (\<lambda>p. is_numpy (fst p)) paulis"

text \<open>\<open>QPE._init_constants\<close>: the evolution time, then the scan for identity terms.\<close>

definition init_constants :: "'c qpe \<Rightarrow> (error + unit) \<times> 'c qpe" where
  "init_constants self =
     (let paulis = operator self in
      case (if evo_time self = None then
              (let lmax = sum_abs (operator self);
                   numpy = sum_abs_numpy (operator self) in
               if \<not> negative_evals self then
                 (case py_div numpy ((1 - 2 powi (- num_ancillae self)) * 2 * pi) lmax of
                    Inl e \<Rightarrow> Inl e
                  | Inr t \<Rightarrow> Inr (self\<lparr>evo_time := Some t\<rparr>))
               else
                 (case py_div numpy ((1 / 2 - 2 powi (- num_ancillae self)) * 2 * pi) lmax of
                    Inl e \<Rightarrow> Inl e
                  | Inr t \<Rightarrow> Inr (self\<lparr>evo_time := Some t\<rparr>)))
            else Inr self) of
        Inl e \<Rightarrow> (Inl e, self)
      | Inr self' \<Rightarrow> identity_loop (operator self') 0 self')"

text \<open>\<open>QPE.get_register_sizes\<close>, with the operator's qubit count given.\<close>

definition get_register_sizes :: "int \<Rightarrow> 'c qpe \<Rightarrow> int \<times> int" where
  "get_register_sizes operator_num_qubits self = (operator_num_qubits, num_ancillae self)"

text \<open>\<open>QPE.get_scaling\<close>\<close>

definition get_scaling :: "'c qpe \<Rightarrow> pyfloat option" where
  "get_scaling self = evo_time self"

text \<open>
  The arguments \<open>construct_circuit\<close> hands to \<open>PhaseEstimation(...)\<close>, the external
  synthesizer of the phase-estimation circuit (\<open>state_in\<close> is always \<open>None\<close>).
\<close>

record 'c pe =
  pe_operator :: "(coef \<times> pauli) list"
  pe_iqft :: 'c
  pe_num_time_slices :: int
  pe_num_ancillae :: int
  pe_expansion_mode :: string
  pe_expansion_order :: int
  pe_evo_time :: "pyfloat option"

definition PhaseEstimation :: "'c qpe \<Rightarrow> 'c pe" where
  "PhaseEstimation self =
     \<lparr>pe_operator = operator self, pe_iqft = iqft self,
      pe_num_time_slices = num_time_slices self,
      pe_num_ancillae = num_ancillae self,
      pe_expansion_mode = expansion_mode self,
      pe_expansion_order = expansion_order self,
      pe_evo_time = evo_time self\<rparr>"

text \<open>The two loops of \<open>_handle_negative_evals\<close>; each gate call appends to the circuit.\<close>

fun cx_loop :: "qubit \<Rightarrow> qubit list \<Rightarrow> gate list \<Rightarrow> gate list" where
  "cx_loop sgn' [] qc = qc"
| "cx_loop sgn' (qi # qs) qc = cx_loop sgn' qs (qc @ [CX sgn' qi])"

fun cu1_loop :: "qubit \<Rightarrow> nat \<Rightarrow> qubit list \<Rightarrow> gate list \<Rightarrow> gate list" where
  "cu1_loop sgn' i [] qc = qc"
| "cu1_loop sgn' i (qi # qs) qc = cu1_loop sgn' (i + 1) qs (qc @ [CU1 (2 * pi / 2 ^ (i + 1)) sgn' qi])"

text \<open>
  \<open>QPE._handle_negative_evals\<close>.  \<open>cc c mode register circuit\<close> is the method
  \<open>c.construct_circuit(mode, register, circuit)\<close> of an external (inverse) QFT component,
  returning the circuit it leaves; calling it on \<open>None\<close> is an \<open>AttributeError\<close>.
\<close>

definition handle_negative_evals ::
  "('c \<Rightarrow> string \<Rightarrow> qubit list \<Rightarrow> gate list \<Rightarrow> gate list) \<Rightarrow> 'c qpe \<Rightarrow> gate list \<Rightarrow> qubit list
     \<Rightarrow> error + gate list"
where
  "handle_negative_evals cc self qc q =
     (case getitem q 0 of
        Inl e \<Rightarrow> Inl e
      | Inr sgn' \<Rightarrow>
         (let qs = drop 1 q;
              qc = cx_loop sgn' qs qc in
          case fst (ne_qfts self) of
            None \<Rightarrow> Inl AttributeError
          | Some qft0 \<Rightarrow>
             (let qc = cc qft0 ''circuit'' qs qc;
                  qc = cu1_loop sgn' 0 (rev qs) qc in
              case snd (ne_qfts self) of
                None \<Rightarrow> Inl AttributeError
              | Some qft1 \<Rightarrow> Inr (cc qft1 ''circuit'' qs qc))))"

text \<open>
  \<open>QPE.construct_circuit\<close>.  \<open>pe_construct_circuit pe q a\<close> is the external
  \<open>PhaseEstimation\<close> object's \<open>construct_circuit(state_register=q, ancillary_register=a)\<close>,
  and \<open>aname\<close> the name qiskit gives the unnamed ancilla register.
\<close>

definition QPE_construct_circuit ::
  "('c pe \<Rightarrow> qubit list option \<Rightarrow> qubit list \<Rightarrow> gate list)
     \<Rightarrow> ('c \<Rightarrow> string \<Rightarrow> qubit list \<Rightarrow> gate list \<Rightarrow> gate list) \<Rightarrow> string
     \<Rightarrow> 'c qpe \<Rightarrow> string \<Rightarrow> qubit list option \<Rightarrow> (error + gate list) \<times> 'c qpe"
where
  "QPE_construct_circuit pe_construct_circuit cc aname self mode register =
     (let pe = PhaseEstimation self in
      if mode = ''vector'' then
        (Inl (ValueError ''QPE only posslible as circuit not vector.''), self)
      else
        (case QuantumRegister (num_ancillae self) aname of
           Inl e \<Rightarrow> (Inl e, self)
         | Inr a \<Rightarrow>
            (let q = register;
                 qc = pe_construct_circuit pe q a in
             case (if negative_evals self then handle_negative_evals cc self qc a else Inr qc) of
               Inl e \<Rightarrow> (Inl e, self)
             | Inr qc \<Rightarrow>
                (Inr qc, self\<lparr>circuit := Some qc, output_register := Some a,
                               input_register := q\<rparr>))))"

subsection \<open>\<open>QPE.init_params\<close>\<close>

text \<open>
  The array \<open>np.array(matrix)\<close>, as the list of its rows.  A list with a row is a
  two-dimensional array; the empty list is \<open>np.array([])\<close>, which has one dimension only.
\<close>

type_synonym matrix = "complex list list"

definition ndim :: "matrix \<Rightarrow> nat" where
  "ndim M = (if M = [] then 1 else 2)"

definition shape0 :: "matrix \<Rightarrow> nat" where
  "shape0 M = length M"

definition shape1 :: "matrix \<Rightarrow> nat" where
  "shape1 M = (case M of [] \<Rightarrow> 0 | r # _ \<Rightarrow> length r)"

definition zeros :: "nat \<Rightarrow> nat \<Rightarrow> matrix" where
  "zeros r c = replicate r (replicate c 0)"

text \<open>\<open>np.matrix.getH\<close>: the conjugate transpose.\<close>

definition getH :: "matrix \<Rightarrow> matrix" where
  "getH M = map (\<lambda>j. map (\<lambda>i. cnj (M ! i ! j)) [0..<shape0 M]) [0..<shape1 M]"

text \<open>
  numpy's slice assignment \<open>M[r0:r0+R, c0:c0+C] = B\<close>: \<open>B\<close> is broadcast to the shape
  \<open>(R, C)\<close> of the slice (an axis of length one is repeated; any other mismatch is a
  \<open>ValueError\<close>) and written over the block.
\<close>

definition broadcast :: "nat \<Rightarrow> nat \<Rightarrow> matrix \<Rightarrow> error + matrix" where
  "broadcast R C B =
     (if (shape0 B = R \<or> shape0 B = 1) \<and> (shape1 B = C \<or> shape1 B = 1) then
        Inr (map (\<lambda>i. map (\<lambda>j. B ! (if shape0 B = 1 then 0 else i) ! (if shape1 B = 1 then 0 else j))
                          [0..<C]) [0..<R])
      else Inl (ValueError ''could not broadcast input array''))"

definition set_block :: "matrix \<Rightarrow> nat \<Rightarrow> nat \<Rightarrow> nat \<Rightarrow> nat \<Rightarrow> matrix \<Rightarrow> error + matrix" where
  "set_block M r0 c0 R C B =
     (case broadcast R C B of
        Inl e \<Rightarrow> Inl e
      | Inr B' \<Rightarrow>
         Inr (map (\<lambda>i. if r0 \<le> i \<and> i < r0 + R
                        then take c0 (M ! i) @ B' ! (i - r0) @ drop (c0 + C) (M ! i)
                        else M ! i) [0..<length M]))"

text \<open>
  The extension of a matrix that is not hermitian, lines 147 to 150 of \<open>init_params\<close>:
  \<open>B = ((0, A), (A\<^sup>+, 0))\<close>.  The two-axis index \<open>[:, :]\<close> of line 148 is an
  \<open>IndexError\<close> on an array of one dimension.
\<close>

definition hermitian_extension :: "matrix \<Rightarrow> error + matrix" where
  "hermitian_extension matrix =
     (let n = shape0 matrix;
          new_matrix = zeros (2 * n) (2 * n) in
      if ndim matrix < 2 then Inl IndexError
      else
        (case set_block new_matrix n 0 n n (getH matrix) of
           Inl e \<Rightarrow> Inl e
         | Inr new_matrix \<Rightarrow> set_block new_matrix 0 n n n matrix))"

text \<open>
  The parameters dictionary: its \<open>eigs\<close> section, and of its \<open>iqft\<close> and \<open>qft\<close> sections
  the name and the \<open>num_qubits\<close> entry (absent until \<open>init_params\<close> writes it).
\<close>

record eigs_params =
  eigs_num_time_slices :: int
  eigs_expansion_mode :: string
  eigs_expansion_order :: int
  eigs_num_ancillae :: int
  eigs_evo_time :: "real option"
  eigs_use_basis_gates :: bool
  eigs_hermitian_matrix :: bool
  eigs_negative_evals :: bool

record params =
  eigs :: eigs_params
  iqft_name :: string
  iqft_num_qubits :: "int option"
  qft_name :: string
  qft_num_qubits :: "int option"

datatype PluggableType = IQFT | QFT

text \<open>
  The keyword arguments \<open>init_params\<close> hands to the constructor: the entries copied from
  the \<open>eigs\<close> section, and \<open>operator\<close> (the matrix given to \<open>Operator(matrix=...)\<close>),
  \<open>iqft\<close> and \<open>ne_qfts\<close>.
\<close>

record 'c qpe_args =
  args_eigs :: eigs_params
  args_operator :: matrix
  args_iqft :: 'c
  args_ne_qfts :: "'c option \<times> 'c option"

text \<open>
  \<open>QPE.init_params\<close>, up to the call \<open>cls(**args)\<close>.  \<open>get_pluggable_class t name p\<close> is
  \<open>get_pluggable_class(t, name).init_params(p)\<close>, the external construction of a component
  from the parameters dictionary as it is at that moment.
\<close>

definition init_params ::
  "(PluggableType \<Rightarrow> string \<Rightarrow> params \<Rightarrow> 'c) \<Rightarrow> params \<Rightarrow> matrix option \<Rightarrow> error + 'c qpe_args"
where
  "init_params get_pluggable_class params matrix =
     (case matrix of
        None \<Rightarrow> Inl (AquaError ''Operator instance is required.'')
      | Some matrix \<Rightarrow>
         (let eigs_params = eigs params;
              args = eigs_params;
              num_ancillae = eigs_num_ancillae eigs_params;
              hermitian_matrix = eigs_hermitian_matrix eigs_params;
              negative_evals = eigs_negative_evals eigs_params;
              (num_ancillae, args) =
                 (if negative_evals
                  then (num_ancillae + 1, args\<lparr>eigs_num_ancillae := num_ancillae + 1\<rparr>)
                  else (num_ancillae, args))
          in
          case (if \<not> hermitian_matrix
                then (case hermitian_extension matrix of
                        Inl e \<Rightarrow> Inl e
                      | Inr new_matrix \<Rightarrow> Inr (True, new_matrix))
                else Inr (negative_evals, matrix)) of
            Inl e \<Rightarrow> Inl e
          | Inr (negative_evals', matrix) \<Rightarrow>
             (let params = params\<lparr>iqft_num_qubits := Some (eigs_num_ancillae eigs_params)\<rparr>;
                  iqft = get_pluggable_class IQFT (iqft_name params) params
              in
              if negative_evals' then
                (case iqft_num_qubits params of
                   None \<Rightarrow> Inl KeyError
                 | Some qft_num_qubits' \<Rightarrow>
                    (let params = params\<lparr>qft_num_qubits := Some (qft_num_qubits' - 1)\<rparr>;
                         params = params\<lparr>iqft_num_qubits := Some (qft_num_qubits' - 1)\<rparr>
                     in
                     Inr \<lparr>args_eigs = args, args_operator = matrix, args_iqft = iqft,
                          args_ne_qfts =
                            (Some (get_pluggable_class QFT (qft_name params) params),
                             Some (get_pluggable_class IQFT (iqft_name params) params))\<rparr>))
              else
                Inr \<lparr>args_eigs = args, args_operator = matrix, args_iqft = iqft,
                     args_ne_qfts = (None, None)\<rparr>)))"

section \<open>approximate.py: the approximate inverse QFT\<close>

record approximate =
  num_qubits :: int
  degree :: int

text \<open>\<open>Approximate.init_args\<close>\<close>

definition init_args :: "approximate \<Rightarrow> int \<Rightarrow> int \<Rightarrow> approximate" where
  "init_args self n d = self\<lparr>num_qubits := n, degree := d\<rparr>"

text \<open>
  What \<open>Approximate.construct_circuit\<close> returns: in vector mode the matrix
  \<open>linalg.dft(N, scale='sqrtn')\<close> of scipy, kept as that call on its argument \<open>N\<close>; in
  circuit mode the circuit, as the list of its gates.
\<close>

datatype approximate_result = Dft_sqrtn real | Circuit "gate list"

text \<open>
  The inner loop, \<open>for k in reversed(neighbor_range)\<close>, where \<open>neighbor_range\<close> is
  \<open>range(lo, j)\<close>: \<open>k\<close> runs from \<open>j - 1\<close> down to \<open>lo\<close>.
\<close>

function neighbor_loop ::
  "qubit list \<Rightarrow> int \<Rightarrow> int \<Rightarrow> int \<Rightarrow> gate list \<Rightarrow> error + gate list"
where
  "neighbor_loop register j lo k circuit' =
     (if k < lo then Inr circuit'
      else
        (case getitem register j of
           Inl e \<Rightarrow> Inl e
         | Inr qj \<Rightarrow>
            (case getitem register k of
               Inl e \<Rightarrow> Inl e
             | Inr qk \<Rightarrow>
                neighbor_loop register j lo (k - 1)
                  (circuit' @ [CU1 (- 1 * pi / (2 powi (j - k))) qj qk]))))"
  by pat_completeness auto
termination
  by (relation "measure (\<lambda>(register, j, lo, k, circuit'). nat (k - lo + 1))") auto

text \<open>The outer loop, \<open>for j in reversed(range(self._num_qubits))\<close>.\<close>

function qubit_loop ::
  "approximate \<Rightarrow> qubit list \<Rightarrow> int \<Rightarrow> gate list \<Rightarrow> error + gate list"
where
  "qubit_loop self register j circuit' =
     (if j < 0 then Inr circuit'
      else
        (case getitem register j of
           Inl e \<Rightarrow> Inl e
         | Inr qj \<Rightarrow>
            (case neighbor_loop register j
                    (max 0 (j - num_qubits self + degree self + 1)) (j - 1)
                    (circuit' @ [H qj]) of
               Inl e \<Rightarrow> Inl e
             | Inr circuit' \<Rightarrow> qubit_loop self register (j - 1) circuit')))"
  by pat_completeness auto
termination
  by (relation "measure (\<lambda>(self, register, j, circuit'). nat (j + 1))") auto

text \<open>\<open>Approximate.construct_circuit\<close>\<close>

definition Approximate_construct_circuit ::
  "approximate \<Rightarrow> string \<Rightarrow> qubit list option \<Rightarrow> gate list option \<Rightarrow> error + approximate_result"
where
  \<open>Approximate_construct_circuit self mode register circuit' =
     (if mode = ''vector'' then Inr (Dft_sqrtn (2 powi (num_qubits self)))
      else if mode = ''circuit'' then
        (case (case register of
                 None \<Rightarrow> QuantumRegister (num_qubits self) ''q''
               | Some r \<Rightarrow> Inr r) of
           Inl e \<Rightarrow> Inl e
         | Inr register \<Rightarrow>
            (let circuit' = (case circuit' of None \<Rightarrow> [] | Some c \<Rightarrow> c) in
             case qubit_loop self register (num_qubits self - 1) circuit' of
               Inl e \<Rightarrow> Inl e
             | Inr circuit' \<Rightarrow> Inr (Circuit circuit')))
      else Inl (ValueError ''Mode should be either "vector" or "circuit"''))\<close>

text \<open>
  The circuit as the specification words it.  For the qubit index \<open>j\<close> the window is
  \<open>[max(0, j - num_qubits + degree + 1), j)\<close>; qubit \<open>j\<close> gets a Hadamard and then a
  controlled phase rotation of angle \<open>- pi / 2^(j - k)\<close> from \<open>j\<close> to each \<open>k\<close> of the window,
  and the indices \<open>j\<close> are taken from the most to the least significant.
\<close>

definition window :: "approximate \<Rightarrow> int \<Rightarrow> int list" where
  "window self j = [max 0 (j - num_qubits self + degree self + 1)..j - 1]"

definition qubit_gates :: "approximate \<Rightarrow> qubit list \<Rightarrow> int \<Rightarrow> gate list" where
  "qubit_gates self register j =
     H (register ! nat j) #
     map (\<lambda>k. CU1 (- pi / 2 ^ nat (j - k)) (register ! nat j) (register ! nat k))
       (rev (window self j))"

definition spec_circuit :: "approximate \<Rightarrow> qubit list \<Rightarrow> gate list" where
  "spec_circuit self register =
     concat (map (qubit_gates self register) (rev [0..num_qubits self - 1]))"

text \<open>
  The register and the circuit the gates go to when the caller leaves them out, and the
  registers that hold a qubit for every index: a fresh register needs a positive size.
\<close>

definition register_or_fresh :: "approximate \<Rightarrow> qubit list option \<Rightarrow> qubit list" where
  "register_or_fresh self register =
     (case register of
        None \<Rightarrow> map (Qubit ''q'') [0..<nat (num_qubits self)]
      | Some r \<Rightarrow> r)"

definition circuit_or_fresh :: "gate list option \<Rightarrow> gate list" where
  "circuit_or_fresh c = (case c of None \<Rightarrow> [] | Some c \<Rightarrow> c)"

definition register_fits :: "approximate \<Rightarrow> qubit list option \<Rightarrow> bool" where
  "register_fits self register =
     (case register of
        None \<Rightarrow> 1 \<le> num_qubits self
      | Some r \<Rightarrow> num_qubits self \<le> int (length r))"


section \<open>Example objects\<close>

definition identity_pauli :: pauli where
  "identity_pauli = \<lparr>pauli_z = [False], pauli_x = [False]\<rparr>"

definition pauli_Z :: pauli where
  "pauli_Z = \<lparr>pauli_z = [True], pauli_x = [False]\<rparr>"

text \<open>A \<open>QPE\<close> object as \<open>__init__\<close> leaves it before \<open>_init_constants\<close>, no evolution time given.\<close>

definition example_qpe :: "(coef \<times> pauli) list \<Rightarrow> int \<Rightarrow> bool \<Rightarrow> unit qpe" where
  "example_qpe paulis n neg =
     \<lparr>num_ancillae = n, iqft = (), operator = paulis, num_time_slices = 1,
      expansion_mode = ''trotter'', expansion_order = 1, evo_time = None,
      use_basis_gates = True, hermitian_matrix = True, negative_evals = neg,
      ne_qfts = (None, None), ancilla_phase_coef = None, circuit = None,
      output_register = None, input_register = None\<rparr>"

text \<open>
  Stand-ins for the external collaborators: a component that appends the gates it is made
  of, here a Hadamard on each qubit of its register, and a synthesizer that puts a Hadamard
  on each ancilla.
\<close>

definition appending ::
  "(qubit list \<Rightarrow> gate list) \<Rightarrow> string \<Rightarrow> qubit list \<Rightarrow> gate list \<Rightarrow> gate list"
where
  "appending c mode register circ = circ @ c register"

definition example_synthesizer ::
  "(qubit list \<Rightarrow> gate list) pe \<Rightarrow> qubit list option \<Rightarrow> qubit list \<Rightarrow> gate list"
where
  "example_synthesizer p q a = map H a"

definition example_qpe_neg :: "int \<Rightarrow> bool \<Rightarrow> (qubit list \<Rightarrow> gate list) qpe" where
  "example_qpe_neg n neg =
     \<lparr>num_ancillae = n, iqft = map H, operator = [(CReal 1, pauli_Z)], num_time_slices = 1,
      expansion_mode = ''trotter'', expansion_order = 1, evo_time = Some (Finite 1),
      use_basis_gates = True, hermitian_matrix = True, negative_evals = neg,
      ne_qfts = (Some (map H), Some (map H)), ancilla_phase_coef = None, circuit = None,
      output_register = None, input_register = None\<rparr>"

text \<open>
  A parameters dictionary with the defaults of the schema, and a component that is known
  by the \<open>num_qubits\<close> entry of its own section at the moment it is built.
\<close>

definition example_eigs :: "int \<Rightarrow> bool \<Rightarrow> bool \<Rightarrow> eigs_params" where
  "example_eigs n herm neg =
     \<lparr>eigs_num_time_slices = 1, eigs_expansion_mode = ''trotter'', eigs_expansion_order = 1,
      eigs_num_ancillae = n, eigs_evo_time = None, eigs_use_basis_gates = True,
      eigs_hermitian_matrix = herm, eigs_negative_evals = neg\<rparr>"

definition example_params :: "int \<Rightarrow> bool \<Rightarrow> bool \<Rightarrow> params" where
  "example_params n herm neg =
     \<lparr>eigs = example_eigs n herm neg, iqft_name = ''STANDARD'', iqft_num_qubits = None,
      qft_name = ''STANDARD'', qft_num_qubits = None\<rparr>"

definition component_num_qubits :: "PluggableType \<Rightarrow> string \<Rightarrow> params \<Rightarrow> int option" where
  "component_num_qubits t name p = (case t of IQFT \<Rightarrow> iqft_num_qubits p | QFT \<Rightarrow> qft_num_qubits p)"

section \<open>The constants of the QPE component\<close>

lemma py_abs_nonneg: "0 \<le> py_abs c"
  by (cases c) auto

lemma sum_abs_nonneg: "0 \<le> sum_abs ps"
  unfolding sum_abs_def by (induction ps) (auto intro: add_nonneg_nonneg simp: py_abs_nonneg)

lemma sum_abs_zero_iff: "sum_abs ps = 0 \<longleftrightarrow> list_all (\<lambda>p. py_abs (fst p) = 0) ps"
proof (induction ps)
  case Nil
  show ?case by (simp add: sum_abs_def)
next
  case (Cons p ps)
  have "0 \<le> py_abs (fst p)" by (rule py_abs_nonneg)
  moreover have "0 \<le> sum_abs ps" by (rule sum_abs_nonneg)
  moreover have "sum_abs (p # ps) = py_abs (fst p) + sum_abs ps" by (simp add: sum_abs_def)
  ultimately show ?case using Cons.IH by (simp add: add_nonneg_eq_0_iff)
qed

lemma identity_loop_evo_time: "evo_time (snd (identity_loop ps n s)) = evo_time s"
  by (induction ps arbitrary: n s) (simp_all add: Let_def)

lemma identity_loop_fst:
  "fst (identity_loop ps n s) =
     (if 1 \<le> length (filter (\<lambda>p. is_identity (snd p)) ps) \<and> 1 < n + int (length (filter (\<lambda>p. is_identity (snd p)) ps)) 
      then Inl (RuntimeError ''Multiple identity pauli terms are present.'') else Inr ())"
proof (induction ps arbitrary: n s)
  case Nil
  show ?case by simp
next
  case (Cons p ps)
  show ?case
  proof (cases "is_identity (snd p)")
    case False
    then show ?thesis using Cons.IH [of n s] by simp
  next
    case True
    show ?thesis
    proof (cases "n + 1 > 1")
      case True
      with \<open>is_identity (snd p)\<close> show ?thesis by (simp add: Let_def)
    next
      case False
      with \<open>is_identity (snd p)\<close> show ?thesis
        using Cons.IH [of "n + 1" "s\<lparr>ancilla_phase_coef := Some (real_coef (fst p))\<rparr>"]
        by (simp add: Let_def)
    qed
  qed
qed

lemma identity_loop_none:
  "filter (\<lambda>p. is_identity (snd p)) ps = [] \<Longrightarrow> identity_loop ps n s = (Inr (), s)"
  by (induction ps arbitrary: n s) (simp_all split: if_splits)

lemma identity_loop_one:
  "filter (\<lambda>p. is_identity (snd p)) ps = [p] \<Longrightarrow> n \<le> 0 \<Longrightarrow>
     identity_loop ps n s = (Inr (), s\<lparr>ancilla_phase_coef := Some (real_coef (fst p))\<rparr>)"
  by (induction ps arbitrary: n s) (simp_all add: Let_def identity_loop_none split: if_splits)

lemma init_constants_evo_time_None:
  assumes "evo_time self = None" and "sum_abs (operator self) \<noteq> 0"
  shows "init_constants self =
           identity_loop (operator self) 0
             (self\<lparr>evo_time := Some (Finite ((if negative_evals self then 1 / 2 - 2 powi (- num_ancillae self)
                                       else 1 - 2 powi (- num_ancillae self)) * 2 * pi
                                      / sum_abs (operator self)))\<rparr>)"
  using assms by (simp add: init_constants_def py_div_def Let_def)

lemma init_constants_evo_time_Some:
  assumes "evo_time self = Some t"
  shows "init_constants self = identity_loop (operator self) 0 self"
  using assms by (simp add: init_constants_def)

lemma init_constants_zero:
  assumes "evo_time self = None" and "sum_abs (operator self) = 0"
    and "\<not> sum_abs_numpy (operator self)"
  shows "init_constants self = (Inl ZeroDivisionError, self)"
  using assms by (simp add: init_constants_def py_div_def Let_def)

lemma init_constants_zero_numpy:
  assumes "evo_time self = None" and "sum_abs (operator self) = 0"
    and "sum_abs_numpy (operator self)"
  shows "init_constants self =
           identity_loop (operator self) 0
             (self\<lparr>evo_time :=
                Some (if 0 < (if negative_evals self then 1 / 2 - 2 powi (- num_ancillae self)
                              else 1 - 2 powi (- num_ancillae self)) * 2 * pi then PosInf
                      else if (if negative_evals self then 1 / 2 - 2 powi (- num_ancillae self)
                               else 1 - 2 powi (- num_ancillae self)) * 2 * pi < 0 then NegInf
                      else NaN)\<rparr>)"
proof (cases "negative_evals self")
  case True
  with assms show ?thesis by (simp add: init_constants_def py_div_def Let_def)
next
  case False
  with assms show ?thesis by (simp add: init_constants_def py_div_def Let_def)
qed

text \<open>
  C1: for an operator whose coefficients sum in absolute value to \<open>L > 0\<close> and any ancilla
  count, \<open>_init_constants\<close> sets a missing evolution time to \<open>(1 - 2^-a) * 2 * pi / L\<close>
  when \<open>negative_evals\<close> is false and to \<open>(1/2 - 2^-a) * 2 * pi / L\<close> when it is true, and
  \<open>get_scaling\<close> returns this value, or the evolution time the caller gave.  The value
  is the one the object holds after the step, whether or not the scan for identity terms
  that follows raises.
\<close>

theorem init_constants_scaling:
  assumes "sum_abs (operator self) = L" and "0 < L"
  shows "(evo_time self = None \<longrightarrow>
            get_scaling (snd (init_constants self)) =
              Some (Finite ((if negative_evals self then 1 / 2 - 2 powi (- num_ancillae self)
                     else 1 - 2 powi (- num_ancillae self)) * 2 * pi / L)))
       \<and> (\<forall>t. evo_time self = Some t \<longrightarrow> get_scaling (snd (init_constants self)) = Some t)"
proof (intro conjI impI allI)
  assume "evo_time self = None"
  moreover have "sum_abs (operator self) \<noteq> 0" using assms by simp
  ultimately show "get_scaling (snd (init_constants self)) =
              Some (Finite ((if negative_evals self then 1 / 2 - 2 powi (- num_ancillae self)
                     else 1 - 2 powi (- num_ancillae self)) * 2 * pi / L))"
    using assms(1) by (simp add: init_constants_evo_time_None get_scaling_def identity_loop_evo_time)
next
  fix t assume "evo_time self = Some t"
  then show "get_scaling (snd (init_constants self)) = Some t"
    by (simp add: init_constants_evo_time_Some get_scaling_def identity_loop_evo_time)
qed

theorem init_constants_scaling_witness:
  "sum_abs (operator (example_qpe [(CReal 1, identity_pauli)] 2 False)) = 1 \<and> (0::real) < 1
     \<and> evo_time (example_qpe [(CReal 1, identity_pauli)] 2 False) = None
     \<and> get_scaling (snd (init_constants (example_qpe [(CReal 1, identity_pauli)] 2 False)))
         = Some (Finite (3 * pi / 2))"
proof -
  have h: "sum_abs (operator (example_qpe [(CReal 1, identity_pauli)] 2 False)) = 1"
    by (simp add: example_qpe_def sum_abs_def)
  have e: "evo_time (example_qpe [(CReal 1, identity_pauli)] 2 False) = None"
    by (simp add: example_qpe_def)
  have n: "num_ancillae (example_qpe [(CReal 1, identity_pauli)] 2 False) = 2"
          "\<not> negative_evals (example_qpe [(CReal 1, identity_pauli)] 2 False)"
    by (simp_all add: example_qpe_def)
  from init_constants_scaling [OF h] e n
  have "get_scaling (snd (init_constants (example_qpe [(CReal 1, identity_pauli)] 2 False)))
         = Some (Finite (3 * pi / 2))" by simp
  with h e show ?thesis by simp
qed

text \<open>
  C10: the evolution-time derivation divides by \<open>lmax\<close> unguarded.  When no evolution time
  was given: \<open>lmax\<close> is zero exactly when every coefficient is zero (an empty term list
  included); for a nonzero \<open>lmax\<close> the quotient is taken and stored; for a zero \<open>lmax\<close> the
  division is one by zero and no finite evolution time results, \<open>_init_constants\<close> raising
  \<open>ZeroDivisionError\<close> when \<open>lmax\<close> is a Python number and storing \<open>inf\<close>, \<open>-inf\<close> or \<open>nan\<close>
  and going on when \<open>lmax\<close> is a numpy scalar.
\<close>

theorem evo_time_division:
  assumes "evo_time self = None"
  shows "(sum_abs (operator self) = 0 \<longleftrightarrow> list_all (\<lambda>p. py_abs (fst p) = 0) (operator self))
       \<and> (sum_abs (operator self) \<noteq> 0 \<longrightarrow>
            fst (init_constants self) \<noteq> Inl ZeroDivisionError
            \<and> evo_time (snd (init_constants self)) =
                Some (Finite ((if negative_evals self then 1 / 2 - 2 powi (- num_ancillae self)
                               else 1 - 2 powi (- num_ancillae self)) * 2 * pi
                              / sum_abs (operator self))))
       \<and> (sum_abs (operator self) = 0 \<longrightarrow>
            (\<forall>t. evo_time (snd (init_constants self)) \<noteq> Some (Finite t)))
       \<and> (sum_abs (operator self) = 0 \<and> \<not> sum_abs_numpy (operator self) \<longrightarrow>
            init_constants self = (Inl ZeroDivisionError, self))
       \<and> (sum_abs (operator self) = 0 \<and> sum_abs_numpy (operator self) \<longrightarrow>
            fst (init_constants self) \<noteq> Inl ZeroDivisionError
            \<and> evo_time (snd (init_constants self)) =
                Some (if 0 < (if negative_evals self then 1 / 2 - 2 powi (- num_ancillae self)
                              else 1 - 2 powi (- num_ancillae self)) * 2 * pi then PosInf
                      else if (if negative_evals self then 1 / 2 - 2 powi (- num_ancillae self)
                               else 1 - 2 powi (- num_ancillae self)) * 2 * pi < 0 then NegInf
                      else NaN))"
proof -
  let ?N = "(if negative_evals self then 1 / 2 - 2 powi (- num_ancillae self)
             else 1 - 2 powi (- num_ancillae self)) * 2 * pi"
  have zero: "sum_abs (operator self) = 0 \<longleftrightarrow> list_all (\<lambda>p. py_abs (fst p) = 0) (operator self)"
    by (rule sum_abs_zero_iff)
  have nonzero: "fst (init_constants self) \<noteq> Inl ZeroDivisionError
        \<and> evo_time (snd (init_constants self)) = Some (Finite (?N / sum_abs (operator self)))"
    if "sum_abs (operator self) \<noteq> 0"
    using assms that
    by (simp add: init_constants_evo_time_None identity_loop_fst identity_loop_evo_time)
  have python: "init_constants self = (Inl ZeroDivisionError, self)"
    if "sum_abs (operator self) = 0" and "\<not> sum_abs_numpy (operator self)"
    using assms that by (rule init_constants_zero)
  have numpy: "fst (init_constants self) \<noteq> Inl ZeroDivisionError
        \<and> evo_time (snd (init_constants self)) =
            Some (if 0 < ?N then PosInf else if ?N < 0 then NegInf else NaN)"
    if "sum_abs (operator self) = 0" and "sum_abs_numpy (operator self)"
    using init_constants_zero_numpy [OF assms that]
    by (simp add: identity_loop_fst identity_loop_evo_time)
  have infinite: "evo_time (snd (init_constants self)) \<noteq> Some (Finite t)"
    if z: "sum_abs (operator self) = 0" for t
  proof (cases "sum_abs_numpy (operator self)")
    case True
    from numpy [OF z True] show ?thesis by simp
  next
    case False
    from python [OF z False] assms show ?thesis by simp
  qed
  from zero nonzero python numpy infinite show ?thesis by blast
qed

theorem evo_time_division_witness:
  "evo_time (example_qpe [] 2 False) = None
     \<and> sum_abs (operator (example_qpe [] 2 False)) = 0
     \<and> init_constants (example_qpe [] 2 False) = (Inl ZeroDivisionError, example_qpe [] 2 False)
     \<and> sum_abs (operator (example_qpe [(NComplex 0, pauli_Z)] 2 False)) = 0
     \<and> fst (init_constants (example_qpe [(NComplex 0, pauli_Z)] 2 False)) \<noteq> Inl ZeroDivisionError
     \<and> evo_time (snd (init_constants (example_qpe [(NComplex 0, pauli_Z)] 2 False))) = Some PosInf
     \<and> sum_abs (operator (example_qpe [(NReal (- 2), pauli_Z)] 2 True)) \<noteq> 0
     \<and> evo_time (snd (init_constants (example_qpe [(NReal (- 2), pauli_Z)] 2 True)))
         = Some (Finite (pi / 4))"
proof -
  have e: "evo_time (example_qpe ps 2 neg) = None" for ps neg
    by (simp add: example_qpe_def)
  have z1: "sum_abs (operator (example_qpe [] 2 False)) = 0"
    and p1: "\<not> sum_abs_numpy (operator (example_qpe [] 2 False))"
    by (simp_all add: example_qpe_def sum_abs_def sum_abs_numpy_def)
  have z2: "sum_abs (operator (example_qpe [(NComplex 0, pauli_Z)] 2 False)) = 0"
    and p2: "sum_abs_numpy (operator (example_qpe [(NComplex 0, pauli_Z)] 2 False))"
    by (simp_all add: example_qpe_def sum_abs_def sum_abs_numpy_def)
  have z3: "sum_abs (operator (example_qpe [(NReal (- 2), pauli_Z)] 2 True)) = 2"
    by (simp add: example_qpe_def sum_abs_def)
  have n: "num_ancillae (example_qpe ps 2 neg) = 2" "negative_evals (example_qpe ps 2 neg) = neg"
    for ps neg
    by (simp_all add: example_qpe_def)
  from evo_time_division [OF e, of "[]" False] z1 p1
  have a: "init_constants (example_qpe [] 2 False) = (Inl ZeroDivisionError, example_qpe [] 2 False)"
    by simp
  from evo_time_division [OF e, of "[(NComplex 0, pauli_Z)]" False] z2 p2
  have b: "fst (init_constants (example_qpe [(NComplex 0, pauli_Z)] 2 False)) \<noteq> Inl ZeroDivisionError
     \<and> evo_time (snd (init_constants (example_qpe [(NComplex 0, pauli_Z)] 2 False))) = Some PosInf"
    by (simp add: n)
  from evo_time_division [OF e, of "[(NReal (- 2), pauli_Z)]" True] z3
  have c: "evo_time (snd (init_constants (example_qpe [(NReal (- 2), pauli_Z)] 2 True)))
         = Some (Finite (pi / 4))"
    by (simp add: n)
  from e z1 a z2 b z3 c show ?thesis by simp
qed

text \<open>
  C6, as amended: provided the evolution-time derivation does not divide by zero (an
  evolution time was given, or \<open>lmax\<close> is not zero), \<open>_init_constants\<close> fails, with the
  error for multiple identity terms and with no other, if and only if two or more terms are
  all-identity; with exactly one identity term it succeeds and the ancilla phase offset is
  the real part of that term's coefficient; with none it raises nothing.
\<close>

theorem identity_terms:
  assumes "evo_time self \<noteq> None \<or> sum_abs (operator self) \<noteq> 0"
  shows "(fst (init_constants self) = Inl (RuntimeError ''Multiple identity pauli terms are present.'')
            \<longleftrightarrow> 2 \<le> length (filter (\<lambda>p. is_identity (snd p)) (operator self)))
       \<and> (\<forall>e. fst (init_constants self) = Inl e \<longrightarrow>
            e = RuntimeError ''Multiple identity pauli terms are present.'')
       \<and> (\<forall>p. filter (\<lambda>p. is_identity (snd p)) (operator self) = [p] \<longrightarrow>
            fst (init_constants self) = Inr ()
            \<and> ancilla_phase_coef (snd (init_constants self)) = Some (real_coef (fst p)))
       \<and> (filter (\<lambda>p. is_identity (snd p)) (operator self) = [] \<longrightarrow>
            fst (init_constants self) = Inr ())"
proof -
  obtain s where s: "init_constants self = identity_loop (operator self) 0 s"
  proof (cases "evo_time self")
    case None
    with assms have "sum_abs (operator self) \<noteq> 0" by simp
    from init_constants_evo_time_None [OF None this] that show ?thesis by blast
  next
    case (Some t)
    from init_constants_evo_time_Some [OF Some] that show ?thesis by blast
  qed
  show ?thesis
  proof (intro conjI allI impI)
    show "fst (init_constants self) = Inl (RuntimeError ''Multiple identity pauli terms are present.'')
            \<longleftrightarrow> 2 \<le> length (filter (\<lambda>p. is_identity (snd p)) (operator self))"
      unfolding s identity_loop_fst by (simp, arith)
  next
    fix e assume "fst (init_constants self) = Inl e"
    then show "e = RuntimeError ''Multiple identity pauli terms are present.''"
      by (simp add: s identity_loop_fst split: if_splits)
  next
    fix p assume "filter (\<lambda>p. is_identity (snd p)) (operator self) = [p]"
    then show "fst (init_constants self) = Inr ()"
      by (simp add: s identity_loop_one)
  next
    fix p assume "filter (\<lambda>p. is_identity (snd p)) (operator self) = [p]"
    then show "ancilla_phase_coef (snd (init_constants self)) = Some (real_coef (fst p))"
      by (simp add: s identity_loop_one)
  next
    assume "filter (\<lambda>p. is_identity (snd p)) (operator self) = []"
    then show "fst (init_constants self) = Inr ()"
      by (simp add: s identity_loop_none)
  qed
qed

theorem identity_terms_witness:
  "sum_abs (operator (example_qpe [(CReal 1, pauli_Z), (CComplex (Complex 3 4), identity_pauli)] 2 False)) \<noteq> 0
   \<and> filter (\<lambda>p. is_identity (snd p))
        (operator (example_qpe [(CReal 1, pauli_Z), (CComplex (Complex 3 4), identity_pauli)] 2 False))
       = [(CComplex (Complex 3 4), identity_pauli)]
   \<and> fst (init_constants (example_qpe [(CReal 1, pauli_Z), (CComplex (Complex 3 4), identity_pauli)] 2 False))
       = Inr ()
   \<and> ancilla_phase_coef
        (snd (init_constants (example_qpe [(CReal 1, pauli_Z), (CComplex (Complex 3 4), identity_pauli)] 2 False)))
       = Some 3"
proof -
  let ?q = "example_qpe [(CReal 1, pauli_Z), (CComplex (Complex 3 4), identity_pauli)] 2 False"
  have "cmod (Complex 3 4) = 5"
    by (simp add: cmod_def real_sqrt_unique)
  then have h: "sum_abs (operator ?q) \<noteq> 0"
    by (simp add: example_qpe_def sum_abs_def)
  have f: "filter (\<lambda>p. is_identity (snd p)) (operator ?q) = [(CComplex (Complex 3 4), identity_pauli)]"
    by (simp add: example_qpe_def is_identity_def identity_pauli_def pauli_Z_def)
  from h have "evo_time ?q \<noteq> None \<or> sum_abs (operator ?q) \<noteq> 0" by simp
  from identity_terms [OF this] f h show ?thesis by simp
qed

text \<open>
  Without that proviso the statement fails: on the empty operator, which has no identity
  term, and on two identity terms whose coefficient is the Python float zero the step
  raises \<open>ZeroDivisionError\<close>.
\<close>

theorem identity_terms_counterexample:
  "filter (\<lambda>p. is_identity (snd p)) (operator (example_qpe [] 2 False)) = []
     \<and> fst (init_constants (example_qpe [] 2 False)) = Inl ZeroDivisionError
     \<and> length (filter (\<lambda>p. is_identity (snd p))
          (operator (example_qpe [(CReal 0, identity_pauli), (CReal 0, identity_pauli)] 2 False))) = 2
     \<and> fst (init_constants (example_qpe [(CReal 0, identity_pauli), (CReal 0, identity_pauli)] 2 False))
          = Inl ZeroDivisionError"
  by (simp add: example_qpe_def init_constants_def sum_abs_def sum_abs_numpy_def py_div_def is_identity_def
        identity_pauli_def)

section \<open>The gates of the approximate inverse QFT\<close>

text \<open>
  The two loops are unfolded one step at a time, by computation induction; their
  equations are kept out of the simplifier.
\<close>

declare neighbor_loop.simps [simp del]
declare qubit_loop.simps [simp del]

lemma getitem_ok: "0 \<le> i \<Longrightarrow> i < int (length xs) \<Longrightarrow> getitem xs i = Inr (xs ! nat i)"
  by (simp add: getitem_def)

lemma rev_upto_step: "lo \<le> k \<Longrightarrow> rev [lo..k] = k # rev [lo..k - 1]"
  by (simp add: upto_rec2)

lemma neighbor_loop_eq:
  assumes "0 \<le> lo" and "0 \<le> j" and "j < int (length register)" and "k < int (length register)"
  shows "neighbor_loop register j lo k c =
           Inr (c @ map (\<lambda>k. CU1 (- 1 * pi / (2 powi (j - k))) (register ! nat j) (register ! nat k))
                        (rev [lo..k]))"
  using assms
proof (induction register j lo k c rule: neighbor_loop.induct)
  case (1 register j lo k c)
  show ?case
  proof (cases "k < lo")
    case True
    then show ?thesis by (simp add: neighbor_loop.simps [of register j lo k c])
  next
    case False
    then have k: "0 \<le> k" "lo \<le> k" using "1.prems" by simp_all
    have gj: "getitem register j = Inr (register ! nat j)"
      using "1.prems" by (simp add: getitem_ok)
    have gk: "getitem register k = Inr (register ! nat k)"
      using "1.prems" k by (simp add: getitem_ok)
    have "neighbor_loop register j lo (k - 1)
            (c @ [CU1 (- 1 * pi / (2 powi (j - k))) (register ! nat j) (register ! nat k)]) =
          Inr ((c @ [CU1 (- 1 * pi / (2 powi (j - k))) (register ! nat j) (register ! nat k)]) @
               map (\<lambda>k. CU1 (- 1 * pi / (2 powi (j - k))) (register ! nat j) (register ! nat k))
                   (rev [lo..k - 1]))"
      using "1.IH" [OF False gj gk] "1.prems" by simp
    then show ?thesis
      using False gj gk k by (simp add: neighbor_loop.simps [of register j lo k c] rev_upto_step)
  qed
qed

lemma qubit_loop_raw:
  assumes "j < int (length register)"
  shows "qubit_loop self register j c =
           Inr (c @ concat (map (\<lambda>j. H (register ! nat j) #
                     map (\<lambda>k. CU1 (- 1 * pi / (2 powi (j - k))) (register ! nat j) (register ! nat k))
                        (rev [max 0 (j - num_qubits self + degree self + 1)..j - 1]))
                  (rev [0..j])))"
  using assms
proof (induction self register j c rule: qubit_loop.induct)
  case (1 self register j c)
  show ?case
  proof (cases "j < 0")
    case True
    then show ?thesis by (simp add: qubit_loop.simps [of self register j c])
  next
    case False
    then have j: "0 \<le> j" by simp
    have gj: "getitem register j = Inr (register ! nat j)"
      using "1.prems" j by (simp add: getitem_ok)
    let ?lo = "max 0 (j - num_qubits self + degree self + 1)"
    let ?inner = "map (\<lambda>k. CU1 (- 1 * pi / (2 powi (j - k))) (register ! nat j) (register ! nat k))
                        (rev [?lo..j - 1])"
    have nl: "neighbor_loop register j ?lo (j - 1) (c @ [H (register ! nat j)]) =
                Inr ((c @ [H (register ! nat j)]) @ ?inner)"
      using "1.prems" j by (intro neighbor_loop_eq) simp_all
    have "qubit_loop self register (j - 1) ((c @ [H (register ! nat j)]) @ ?inner) =
            Inr (((c @ [H (register ! nat j)]) @ ?inner) @
                 concat (map (\<lambda>j. H (register ! nat j) #
                     map (\<lambda>k. CU1 (- 1 * pi / (2 powi (j - k))) (register ! nat j) (register ! nat k))
                        (rev [max 0 (j - num_qubits self + degree self + 1)..j - 1]))
                  (rev [0..j - 1])))"
      using "1.IH" [OF False gj nl] "1.prems" by simp
    then show ?thesis
      using False gj nl j
      by (simp add: qubit_loop.simps [of self register j c] rev_upto_step)
  qed
qed

lemma qubit_gates_raw:
  "H (register ! nat j) #
     map (\<lambda>k. CU1 (- 1 * pi / (2 powi (j - k))) (register ! nat j) (register ! nat k))
        (rev [max 0 (j - num_qubits self + degree self + 1)..j - 1])
   = qubit_gates self register j"
proof -
  have "(- 1 * pi / (2 powi (j - k))) = - pi / 2 ^ nat (j - k)" if "k \<le> j - 1" for k
    using that by (simp add: power_int_def)
  then show ?thesis
    by (simp add: qubit_gates_def window_def)
qed

lemma qubit_loop_eq:
  assumes "num_qubits self \<le> int (length register)"
  shows "qubit_loop self register (num_qubits self - 1) c = Inr (c @ spec_circuit self register)"
proof -
  have "(\<lambda>j. H (register ! nat j) #
     map (\<lambda>k. CU1 (- 1 * pi / (2 powi (j - k))) (register ! nat j) (register ! nat k))
        (rev [max 0 (j - num_qubits self + degree self + 1)..j - 1]))
     = qubit_gates self register"
    by (rule ext) (rule qubit_gates_raw)
  moreover have "num_qubits self - 1 < int (length register)" using assms by simp
  ultimately show ?thesis
    using qubit_loop_raw [of "num_qubits self - 1" register self c]
    by (simp only: spec_circuit_def)
qed

lemma Approximate_construct_circuit_eq:
  assumes "register_fits self register"
  shows "Approximate_construct_circuit self ''circuit'' register c =
           Inr (Circuit (circuit_or_fresh c @ spec_circuit self (register_or_fresh self register)))"
proof (cases register)
  case None
  with assms have "1 \<le> num_qubits self" by (simp add: register_fits_def)
  then show ?thesis using None
    by (simp add: Approximate_construct_circuit_def QuantumRegister_def qubit_loop_eq
          register_or_fresh_def circuit_or_fresh_def)
next
  case (Some r)
  with assms have "num_qubits self \<le> int (length r)" by (simp add: register_fits_def)
  then show ?thesis using Some
    by (simp add: Approximate_construct_circuit_def qubit_loop_eq
          register_or_fresh_def circuit_or_fresh_def)
qed

lemma upto_0_1: "[0..1::int] = [0, 1]"
  by (simp add: upto.simps)

lemma upto_0_2: "[0..2::int] = [0, 1, 2]"
  by (simp add: upto.simps)

lemma upt_0_3: "[0..<3] = [0, 1, 2]"
  by (simp add: upt_rec)

text \<open>
  C5: in circuit mode, for every \<open>num_qubits\<close> and \<open>degree\<close>, the builder takes the qubit
  indices \<open>j\<close> from the most to the least significant, puts a Hadamard on qubit \<open>j\<close> and
  then a controlled phase rotation of angle \<open>- pi / 2^(j - k)\<close> from \<open>j\<close> to each \<open>k\<close> of the
  window \<open>[max(0, j - num_qubits + degree + 1), j)\<close> (the code takes the \<open>k\<close> downwards),
  appending to the circuit it was given.  The register has to hold the qubits indexed.
\<close>

theorem approximate_circuit:
  assumes "register_fits self register"
  shows "Approximate_construct_circuit self ''circuit'' register c =
           Inr (Circuit (circuit_or_fresh c @ spec_circuit self (register_or_fresh self register)))"
proof (cases register)
  case None
  with assms have n: "1 \<le> num_qubits self" by (simp add: register_fits_def)
  then have "QuantumRegister (num_qubits self) ''q'' = Inr (register_or_fresh self None)"
    by (simp add: QuantumRegister_def register_or_fresh_def)
  moreover have "num_qubits self \<le> int (length (register_or_fresh self None))"
    using n by (simp add: register_or_fresh_def)
  ultimately show ?thesis using None
    by (simp add: Approximate_construct_circuit_def qubit_loop_eq circuit_or_fresh_def)
next
  case (Some r)
  with assms have "num_qubits self \<le> int (length r)" by (simp add: register_fits_def)
  then have "qubit_loop self r (num_qubits self - 1) (circuit_or_fresh c) =
               Inr (circuit_or_fresh c @ spec_circuit self r)"
    by (rule qubit_loop_eq)
  then show ?thesis using Some
    by (simp add: Approximate_construct_circuit_def register_or_fresh_def circuit_or_fresh_def)
qed

theorem approximate_circuit_witness:
  "register_fits \<lparr>num_qubits = 3, degree = 1\<rparr> None
   \<and> Approximate_construct_circuit \<lparr>num_qubits = 3, degree = 1\<rparr> ''circuit'' None None =
       Inr (Circuit [H (Qubit ''q'' 2), CU1 (- pi / 2) (Qubit ''q'' 2) (Qubit ''q'' 1),
                     H (Qubit ''q'' 1), CU1 (- pi / 2) (Qubit ''q'' 1) (Qubit ''q'' 0),
                     H (Qubit ''q'' 0)])"
proof -
  have f: "register_fits \<lparr>num_qubits = 3, degree = 1\<rparr> None"
    by (simp add: register_fits_def)
  from approximate_circuit [OF f, of None] f show ?thesis
    by (simp add: spec_circuit_def qubit_gates_def window_def register_or_fresh_def
          circuit_or_fresh_def upto_0_2 upto_0_1 upt_0_3)
qed

lemma window_degree_zero:
  assumes "j \<le> num_qubits self - 1" and "degree self = 0"
  shows "window self j = [0..j - 1]"
proof -
  have "max 0 (j - num_qubits self + degree self + 1) = 0" using assms by simp
  then show ?thesis by (simp add: window_def)
qed

lemma window_degree_full:
  assumes "0 \<le> j" and "degree self = num_qubits self"
  shows "window self j = []"
  using assms by (simp add: window_def)

lemma spec_circuit_degree_zero:
  assumes "degree self = 0"
  shows "spec_circuit self r =
           concat (map (\<lambda>j. H (r ! nat j) #
                          map (\<lambda>k. CU1 (- pi / 2 ^ nat (j - k)) (r ! nat j) (r ! nat k)) (rev [0..j - 1]))
                    (rev [0..num_qubits self - 1]))"
proof -
  have "map (qubit_gates self r) (rev [0..num_qubits self - 1]) =
        map (\<lambda>j. H (r ! nat j) #
                          map (\<lambda>k. CU1 (- pi / 2 ^ nat (j - k)) (r ! nat j) (r ! nat k)) (rev [0..j - 1]))
                    (rev [0..num_qubits self - 1])"
    by (rule map_cong) (simp_all add: qubit_gates_def window_degree_zero assms)
  then show ?thesis by (simp only: spec_circuit_def)
qed

lemma spec_circuit_degree_full:
  assumes "degree self = num_qubits self"
  shows "spec_circuit self r = map (\<lambda>j. H (r ! nat j)) (rev [0..num_qubits self - 1])"
proof -
  have "map (qubit_gates self r) (rev [0..num_qubits self - 1]) =
        map (\<lambda>j. [H (r ! nat j)]) (rev [0..num_qubits self - 1])"
    by (rule map_cong) (simp_all add: qubit_gates_def window_degree_full assms)
  moreover have "concat (map (\<lambda>j. [f j]) xs) = map f xs" for f :: "int \<Rightarrow> gate" and xs
    by (induction xs) simp_all
  ultimately show ?thesis by (simp only: spec_circuit_def)
qed

text \<open>
  C2, as amended: the two extremes are the other way round.  With \<open>degree = 0\<close> the circuit
  has, after the Hadamard of each qubit \<open>j\<close>, a controlled phase gate for every \<open>k < j\<close>
  (the connectivity of the exact QFT); with \<open>degree = num_qubits\<close> it has the Hadamards
  only and no controlled phase gate.
\<close>

theorem approximate_degree_extremes:
  assumes "register_fits self register"
  shows "(degree self = 0 \<longrightarrow>
            Approximate_construct_circuit self ''circuit'' register c =
              Inr (Circuit (circuit_or_fresh c @
                 concat (map (\<lambda>j. H (register_or_fresh self register ! nat j) #
                            map (\<lambda>k. CU1 (- pi / 2 ^ nat (j - k))
                                       (register_or_fresh self register ! nat j)
                                       (register_or_fresh self register ! nat k))
                              (rev [0..j - 1]))
                         (rev [0..num_qubits self - 1])))))
       \<and> (degree self = num_qubits self \<longrightarrow>
            Approximate_construct_circuit self ''circuit'' register c =
              Inr (Circuit (circuit_or_fresh c @
                 map (\<lambda>j. H (register_or_fresh self register ! nat j))
                   (rev [0..num_qubits self - 1]))))"
  using Approximate_construct_circuit_eq [OF assms, of c]
  by (simp add: spec_circuit_degree_zero spec_circuit_degree_full)

theorem approximate_degree_extremes_witness:
  "register_fits \<lparr>num_qubits = 3, degree = 0\<rparr> None
   \<and> Approximate_construct_circuit \<lparr>num_qubits = 3, degree = 0\<rparr> ''circuit'' None None =
       Inr (Circuit [H (Qubit ''q'' 2), CU1 (- pi / 2) (Qubit ''q'' 2) (Qubit ''q'' 1),
                     CU1 (- pi / 4) (Qubit ''q'' 2) (Qubit ''q'' 0),
                     H (Qubit ''q'' 1), CU1 (- pi / 2) (Qubit ''q'' 1) (Qubit ''q'' 0),
                     H (Qubit ''q'' 0)])
   \<and> register_fits \<lparr>num_qubits = 3, degree = 3\<rparr> None
   \<and> Approximate_construct_circuit \<lparr>num_qubits = 3, degree = 3\<rparr> ''circuit'' None None =
       Inr (Circuit [H (Qubit ''q'' 2), H (Qubit ''q'' 1), H (Qubit ''q'' 0)])"
proof -
  have f: "register_fits \<lparr>num_qubits = 3, degree = 0\<rparr> None"
    and g: "register_fits \<lparr>num_qubits = 3, degree = 3\<rparr> None"
    by (simp_all add: register_fits_def)
  from approximate_degree_extremes [OF f, of None] approximate_degree_extremes [OF g, of None] f g
  show ?thesis
    by (simp add: register_or_fresh_def circuit_or_fresh_def upto_0_2 upto_0_1 upt_0_3)
qed

text \<open>
  As stated the claim fails on two qubits: \<open>degree = 2\<close> gives no controlled phase gate for
  the pair \<open>(1, 0)\<close>, and \<open>degree = 0\<close> gives one.
\<close>

theorem approximate_degree_counterexample:
  "Approximate_construct_circuit \<lparr>num_qubits = 2, degree = 2\<rparr> ''circuit'' None None =
     Inr (Circuit [H (Qubit ''q'' 1), H (Qubit ''q'' 0)])
   \<and> Approximate_construct_circuit \<lparr>num_qubits = 2, degree = 0\<rparr> ''circuit'' None None =
     Inr (Circuit [H (Qubit ''q'' 1), CU1 (- pi / 2) (Qubit ''q'' 1) (Qubit ''q'' 0),
                   H (Qubit ''q'' 0)])"
  by (simp add: Approximate_construct_circuit_def QuantumRegister_def qubit_loop.simps
        neighbor_loop.simps getitem_def)

section \<open>The circuit of the QPE component\<close>

lemma cx_loop_eq: "cx_loop s qs qc = qc @ map (CX s) qs"
  by (induction qs arbitrary: qc) simp_all

lemma cu1_loop_eq:
  "cu1_loop s i qs qc = qc @ map (\<lambda>k. CU1 (2 * pi / 2 ^ (i + k + 1)) s (qs ! k)) [0..<length qs]"
proof (induction qs arbitrary: i qc)
  case Nil
  show ?case by simp
next
  case (Cons q qs)
  show ?case
    by (simp add: Cons.IH map_upt_Suc del: upt_Suc)
qed

lemma handle_negative_evals_eq:
  assumes "ne_qfts self = (Some qft0, Some qft1)"
  shows "handle_negative_evals cc self qc (s # qs) =
           Inr (cc qft1 ''circuit'' qs
                 (cc qft0 ''circuit'' qs (qc @ map (CX s) qs)
                  @ map (\<lambda>k. CU1 (2 * pi / 2 ^ (k + 1)) s (rev qs ! k)) [0..<length qs]))"
  using assms
  by (simp add: handle_negative_evals_def getitem_def cx_loop_eq cu1_loop_eq Let_def)

lemma QuantumRegister_pos:
  assumes "0 < n"
  shows "QuantumRegister n name = Inr (Qubit name 0 # map (Qubit name) [1..<nat n])"
proof -
  have "0 < nat n" using assms by simp
  then have "[0..<nat n] = 0 # [1..<nat n]" by (simp add: upt_conv_Cons)
  then show ?thesis using assms by (simp add: QuantumRegister_def)
qed

lemma handle_negative_evals_no_ValueError:
  "handle_negative_evals cc self qc q \<noteq> Inl (ValueError msg)"
  by (simp add: handle_negative_evals_def getitem_def Let_def split: sum.splits option.splits)

lemma upt_1_3: "[Suc 0..<3] = [Suc 0, 2]"
  by (simp add: upt_rec)

lemma upt_0_2: "[0..<2] = [0, Suc 0]"
  by (simp add: upt_rec)

text \<open>
  C7: with both auxiliary components present, \<open>_handle_negative_evals\<close> on an ancilla
  register \<open>s # qs\<close> (\<open>s\<close> the sign qubit, \<open>qs\<close> the magnitude qubits) gives the circuit
  (1) a CNOT from \<open>s\<close> to every qubit of \<open>qs\<close>, (2) the first component's circuit over \<open>qs\<close>,
  (3) for the qubits of \<open>qs\<close> in reverse order a phase rotation of angle \<open>2 * pi / 2^(k + 1)\<close>
  controlled by \<open>s\<close> on the \<open>k\<close>-th of them, counting from \<open>0\<close>, (4) the second component's
  circuit over \<open>qs\<close>; and when \<open>negative_evals\<close> is set \<open>construct_circuit\<close> returns the
  phase-estimation circuit with exactly this correction after it, \<open>s\<close> being ancilla \<open>0\<close>.
\<close>

theorem negative_evals_correction:
  assumes "ne_qfts self = (Some qft0, Some qft1)"
  shows "handle_negative_evals cc self qc (s # qs) =
           Inr (cc qft1 ''circuit'' qs
                 (cc qft0 ''circuit'' qs (qc @ map (CX s) qs)
                  @ map (\<lambda>k. CU1 (2 * pi / 2 ^ (k + 1)) s (rev qs ! k)) [0..<length qs]))
       \<and> (negative_evals self \<and> mode \<noteq> ''vector'' \<and> 0 < num_ancillae self \<longrightarrow>
            fst (QPE_construct_circuit pcc cc aname self mode register) =
              Inr (cc qft1 ''circuit'' (map (Qubit aname) [1..<nat (num_ancillae self)])
                    (cc qft0 ''circuit'' (map (Qubit aname) [1..<nat (num_ancillae self)])
                       (pcc (PhaseEstimation self) register
                            (Qubit aname 0 # map (Qubit aname) [1..<nat (num_ancillae self)])
                        @ map (CX (Qubit aname 0)) (map (Qubit aname) [1..<nat (num_ancillae self)]))
                     @ map (\<lambda>k. CU1 (2 * pi / 2 ^ (k + 1)) (Qubit aname 0)
                                  (rev (map (Qubit aname) [1..<nat (num_ancillae self)]) ! k))
                         [0..<length (map (Qubit aname) [1..<nat (num_ancillae self)])])))"
proof (intro conjI impI)
  show "handle_negative_evals cc self qc (s # qs) =
           Inr (cc qft1 ''circuit'' qs
                 (cc qft0 ''circuit'' qs (qc @ map (CX s) qs)
                  @ map (\<lambda>k. CU1 (2 * pi / 2 ^ (k + 1)) s (rev qs ! k)) [0..<length qs]))"
    using assms by (rule handle_negative_evals_eq)
next
  assume a: "negative_evals self \<and> mode \<noteq> ''vector'' \<and> 0 < num_ancillae self"
  then have r: "QuantumRegister (num_ancillae self) aname =
                  Inr (Qubit aname 0 # map (Qubit aname) [1..<nat (num_ancillae self)])"
    by (simp add: QuantumRegister_pos)
  show "fst (QPE_construct_circuit pcc cc aname self mode register) =
              Inr (cc qft1 ''circuit'' (map (Qubit aname) [1..<nat (num_ancillae self)])
                    (cc qft0 ''circuit'' (map (Qubit aname) [1..<nat (num_ancillae self)])
                       (pcc (PhaseEstimation self) register
                            (Qubit aname 0 # map (Qubit aname) [1..<nat (num_ancillae self)])
                        @ map (CX (Qubit aname 0)) (map (Qubit aname) [1..<nat (num_ancillae self)]))
                     @ map (\<lambda>k. CU1 (2 * pi / 2 ^ (k + 1)) (Qubit aname 0)
                                  (rev (map (Qubit aname) [1..<nat (num_ancillae self)]) ! k))
                         [0..<length (map (Qubit aname) [1..<nat (num_ancillae self)])]))"
    using a by (simp add: QPE_construct_circuit_def r handle_negative_evals_eq [OF assms] Let_def)
qed

theorem negative_evals_correction_witness:
  "ne_qfts (example_qpe_neg 3 True) = (Some (map H), Some (map H))
   \<and> fst (QPE_construct_circuit example_synthesizer appending ''a'' (example_qpe_neg 3 True)
            ''circuit'' None) =
       Inr [H (Qubit ''a'' 0), H (Qubit ''a'' 1), H (Qubit ''a'' 2),
            CX (Qubit ''a'' 0) (Qubit ''a'' 1), CX (Qubit ''a'' 0) (Qubit ''a'' 2),
            H (Qubit ''a'' 1), H (Qubit ''a'' 2),
            CU1 pi (Qubit ''a'' 0) (Qubit ''a'' 2), CU1 (pi / 2) (Qubit ''a'' 0) (Qubit ''a'' 1),
            H (Qubit ''a'' 1), H (Qubit ''a'' 2)]"
proof -
  have n: "ne_qfts (example_qpe_neg 3 True) = (Some (map H), Some (map H))"
    by (simp add: example_qpe_neg_def)
  have a: "negative_evals (example_qpe_neg 3 True)" "num_ancillae (example_qpe_neg 3 True) = 3"
    by (simp_all add: example_qpe_neg_def)
  have m: "''circuit'' \<noteq> ''vector''" by simp
  from negative_evals_correction [OF n, of appending "[]" "Qubit ''a'' 0" "[]" "''circuit''"
         example_synthesizer "''a''" None] a m n
  show ?thesis
    by (simp add: appending_def example_synthesizer_def upt_1_3 upt_0_2)
qed

text \<open>
  C8: whatever the configuration and the register, \<open>construct_circuit\<close> in mode
  \<open>vector\<close> raises the \<open>ValueError\<close> for the unsupported mode, returns no circuit and leaves
  the object as it was.
\<close>

theorem vector_mode_unsupported:
  "QPE_construct_circuit pcc cc aname self ''vector'' register =
     (Inl (ValueError ''QPE only posslible as circuit not vector.''), self)"
  by (simp add: QPE_construct_circuit_def Let_def)

text \<open>
  C9: the mode is only compared with \<open>vector\<close>.  For any other mode string
  \<open>construct_circuit\<close> does exactly what it does for \<open>circuit\<close>, result and object alike,
  and raises no \<open>ValueError\<close>.
\<close>

theorem mode_not_validated:
  assumes "mode \<noteq> ''vector''"
  shows "QPE_construct_circuit pcc cc aname self mode register =
           QPE_construct_circuit pcc cc aname self ''circuit'' register
       \<and> (\<forall>msg. fst (QPE_construct_circuit pcc cc aname self mode register) \<noteq> Inl (ValueError msg))"
proof (intro conjI allI)
  show "QPE_construct_circuit pcc cc aname self mode register =
           QPE_construct_circuit pcc cc aname self ''circuit'' register"
    using assms by (simp add: QPE_construct_circuit_def)
next
  fix msg
  show "fst (QPE_construct_circuit pcc cc aname self mode register) \<noteq> Inl (ValueError msg)"
    using assms handle_negative_evals_no_ValueError [of cc self _ _ msg]
    by (auto simp add: QPE_construct_circuit_def QuantumRegister_def Let_def split: sum.splits)
qed

theorem mode_not_validated_witness:
  "''foo'' \<noteq> ''vector''
   \<and> QPE_construct_circuit example_synthesizer appending ''a'' (example_qpe_neg 2 False) ''foo'' None =
       QPE_construct_circuit example_synthesizer appending ''a'' (example_qpe_neg 2 False) ''circuit'' None
   \<and> fst (QPE_construct_circuit example_synthesizer appending ''a'' (example_qpe_neg 2 False) ''foo'' None)
       = Inr [H (Qubit ''a'' 0), H (Qubit ''a'' 1)]"
proof -
  have m: "''foo'' \<noteq> ''vector''" by simp
  have c: "fst (QPE_construct_circuit example_synthesizer appending ''a'' (example_qpe_neg 2 False)
                 ''circuit'' None) = Inr [H (Qubit ''a'' 0), H (Qubit ''a'' 1)]"
    by (simp add: QPE_construct_circuit_def QuantumRegister_def example_qpe_neg_def
          example_synthesizer_def Let_def upt_rec)
  from mode_not_validated [OF m, of example_synthesizer appending "''a''" "example_qpe_neg 2 False" None]
    m c
  show ?thesis by simp
qed

section \<open>The parameters of the QPE component\<close>

text \<open>
  The empty list raises.  For a square matrix \<open>A\<close> of size \<open>n > 0\<close> the extension succeeds and is the \<open>2n\<close> by \<open>2n\<close>
  matrix with \<open>A\<close> top right, the conjugate transpose of \<open>A\<close> bottom left and zeros on
  the diagonal blocks; it equals its own conjugate transpose.
\<close>

lemma shape1_square:
  assumes "\<forall>r\<in>set A. length r = length A"
  shows "shape1 A = length A"
  using assms by (cases A) (simp_all add: shape1_def)

lemma broadcast_square:
  assumes "length B = n" and "\<forall>r\<in>set B. length r = n"
  shows "broadcast n n B = Inr B"
proof -
  have s0: "shape0 B = n" using assms by (simp add: shape0_def)
  have s1: "shape1 B = n" using assms shape1_square [of B] by simp
  define f where "f = (\<lambda>i j. B ! (if n = 1 then 0 else i) ! (if n = 1 then 0 else j))"
  have f: "f i j = B ! i ! j" if "i < n" and "j < n" for i j
    using that by (auto simp: f_def)
  have "map (\<lambda>i. map (f i) [0..<n]) [0..<n] = B"
  proof (rule nth_equalityI)
    show "length (map (\<lambda>i. map (f i) [0..<n]) [0..<n]) = length B"
      using assms by simp
  next
    fix i assume "i < length (map (\<lambda>i. map (f i) [0..<n]) [0..<n])"
    then have i: "i < n" by simp
    then have "B ! i \<in> set B" using assms by simp
    then have l: "length (B ! i) = n" using assms by simp
    have "map (f i) [0..<n] = B ! i"
      using l i by (intro nth_equalityI) (simp_all add: f)
    with i show "map (\<lambda>i. map (f i) [0..<n]) [0..<n] ! i = B ! i"
      by simp
  qed
  then show ?thesis by (simp add: broadcast_def s0 s1 f_def)
qed

lemma getH_square:
  assumes "\<forall>r\<in>set A. length r = length A"
  shows "getH A = map (\<lambda>j. map (\<lambda>i. cnj (A ! i ! j)) [0..<length A]) [0..<length A]"
  using shape1_square [OF assms] by (simp add: getH_def shape0_def)

lemma hermitian_extension_nonempty:
  assumes "hermitian_extension A = Inr B"
  shows "A \<noteq> []"
  using assms by (auto simp: hermitian_extension_def ndim_def Let_def)

lemma hermitian_extension_empty: "hermitian_extension [] = Inl IndexError"
  by (simp add: hermitian_extension_def ndim_def Let_def)

lemma hermitian_extension_square:
  assumes "\<forall>r\<in>set A. length r = length A" and "A \<noteq> []"
  shows "hermitian_extension A =
           Inr (map (\<lambda>i. if i < length A then replicate (length A) 0 @ A ! i
                          else map (\<lambda>j. cnj (A ! j ! (i - length A))) [0..<length A]
                               @ replicate (length A) 0)
                  [0..<2 * length A])"
proof -
  let ?n = "length A"
  let ?G = "map (\<lambda>j. map (\<lambda>i. cnj (A ! i ! j)) [0..<?n]) [0..<?n]"
  have bG: "broadcast ?n ?n (getH A) = Inr ?G"
    using broadcast_square [of ?G ?n] by (simp add: getH_square [OF assms(1)])
  have bA: "broadcast ?n ?n A = Inr A"
    using assms(1) by (rule broadcast_square [OF refl])
  let ?M1 = "map (\<lambda>i. if ?n \<le> i then ?G ! (i - ?n) @ replicate ?n 0 else replicate (2 * ?n) 0)
               [0..<2 * ?n]"
  have m1: "set_block (zeros (2 * ?n) (2 * ?n)) ?n 0 ?n ?n (getH A) = Inr ?M1"
    by (simp add: set_block_def bG zeros_def)
  have m2: "set_block ?M1 0 ?n ?n ?n A =
          Inr (map (\<lambda>i. if i < length A then replicate (length A) 0 @ A ! i
                          else map (\<lambda>j. cnj (A ! j ! (i - length A))) [0..<length A]
                               @ replicate (length A) 0)
                  [0..<2 * length A])"
    by (simp add: set_block_def bA)
  show ?thesis
    using assms(2) by (simp add: hermitian_extension_def shape0_def ndim_def Let_def m1 m2)
qed

lemma hermitian_extension_entry:
  assumes sq: "\<forall>r\<in>set A. length r = length A"
    and B: "hermitian_extension A = Inr B"
    and i: "i < 2 * length A" and j: "j < 2 * length A"
  shows "B ! i ! j =
           (if i < length A then (if j < length A then 0 else A ! i ! (j - length A))
            else (if j < length A then cnj (A ! j ! (i - length A)) else 0))"
proof -
  have Bi: "B ! i = (if i < length A then replicate (length A) 0 @ A ! i
                     else map (\<lambda>j. cnj (A ! j ! (i - length A))) [0..<length A]
                          @ replicate (length A) 0)"
    using B i unfolding hermitian_extension_square [OF sq hermitian_extension_nonempty [OF B]]
    by auto
  show ?thesis
  proof (cases "i < length A")
    case True
    then show ?thesis using Bi by (simp add: nth_append)
  next
    case False
    then show ?thesis using Bi j by (simp add: nth_append)
  qed
qed

lemma hermitian_extension_shape:
  assumes sq: "\<forall>r\<in>set A. length r = length A"
    and B: "hermitian_extension A = Inr B"
  shows "length B = 2 * length A" and "\<forall>r\<in>set B. length r = 2 * length A"
proof -
  have eq: "B = map (\<lambda>i. if i < length A then replicate (length A) 0 @ A ! i
                          else map (\<lambda>j. cnj (A ! j ! (i - length A))) [0..<length A]
                               @ replicate (length A) 0)
                  [0..<2 * length A]"
    using B unfolding hermitian_extension_square [OF sq hermitian_extension_nonempty [OF B]]
    by simp
  show "length B = 2 * length A" by (subst eq) simp
  have "length (A ! i) = length A" if "i < length A" for i
    using sq that by simp
  then show "\<forall>r\<in>set B. length r = 2 * length A"
    by (subst eq) auto
qed

lemma hermitian_extension_hermitian:
  assumes sq: "\<forall>r\<in>set A. length r = length A"
    and B: "hermitian_extension A = Inr B"
  shows "getH B = B"
proof -
  let ?m = "2 * length A"
  have len: "length B = ?m" and rows: "\<forall>r\<in>set B. length r = ?m"
    using hermitian_extension_shape [OF sq B] by simp_all
  have sqB: "\<forall>r\<in>set B. length r = length B" using len rows by simp
  have g: "getH B = map (\<lambda>j. map (\<lambda>i. cnj (B ! i ! j)) [0..<?m]) [0..<?m]"
    using getH_square [OF sqB] len by simp
  have sym: "cnj (B ! i ! j) = B ! j ! i" if "i < ?m" and "j < ?m" for i j
    using that
    by (simp add: hermitian_extension_entry [OF sq B])
  show ?thesis
  proof (rule nth_equalityI)
    show "length (getH B) = length B" using g len by simp
  next
    fix j assume "j < length (getH B)"
    then have j: "j < ?m" using g by simp
    then have "B ! j \<in> set B" using len by simp
    then have lj: "length (B ! j) = ?m" using rows by simp
    have "map (\<lambda>i. cnj (B ! i ! j)) [0..<?m] = B ! j"
      using lj j by (intro nth_equalityI) (simp_all add: sym)
    then show "getH B ! j = B ! j" using g j by simp
  qed
qed

text \<open>
  What \<open>init_params\<close> hands on for a matrix flagged as not hermitian: the extension as
  operator and both auxiliary QFTs, with the \<open>negative_evals\<close> entry and the increment of
  the ancilla count as the caller's own \<open>negative_evals\<close> decides them.
\<close>

lemma init_params_not_hermitian:
  assumes sq: "\<forall>r\<in>set A. length r = length A" and ne: "A \<noteq> []"
    and nh: "\<not> eigs_hermitian_matrix (eigs params)"
  shows "\<exists>args B. init_params get_pluggable_class params (Some A) = Inr args
           \<and> hermitian_extension A = Inr B
           \<and> args_operator args = B
           \<and> fst (args_ne_qfts args) \<noteq> None \<and> snd (args_ne_qfts args) \<noteq> None
           \<and> eigs_negative_evals (args_eigs args) = eigs_negative_evals (eigs params)
           \<and> eigs_num_ancillae (args_eigs args) =
               (if eigs_negative_evals (eigs params) then eigs_num_ancillae (eigs params) + 1
                else eigs_num_ancillae (eigs params))"
  using nh
  by (simp add: init_params_def hermitian_extension_square [OF sq ne] Let_def)

lemma upt_0_4: "[0..<4] = [0, Suc 0, 2, 3]"
  by (simp add: upt_rec)

lemma hermitian_extension_example:
  "hermitian_extension [[0, \<i>], [0, 0]] =
     Inr [[0, 0, 0, \<i>], [0, 0, 0, 0], [0, 0, 0, 0], [- \<i>, 0, 0, 0]]"
  by (simp add: hermitian_extension_def set_block_def broadcast_def getH_def shape0_def
        shape1_def zeros_def ndim_def upt_0_2 upt_0_4 Let_def eval_nat_numeral)

lemma getH_example:
  "getH [[0, 0, 0, \<i>], [0, 0, 0, 0], [0, 0, 0, 0], [- \<i>, 0, 0, 0]] =
     [[0, 0, 0, \<i>], [0, 0, 0, 0], [0, 0, 0, 0], [- \<i>, 0, 0, 0]]"
  by (simp add: getH_def shape0_def shape1_def upt_0_4 eval_nat_numeral)

text \<open>
  C4: for a square matrix \<open>A\<close> flagged as not hermitian, \<open>init_params\<close> builds the block
  matrix \<open>B = ((0, A), (A\<^sup>+, 0))\<close>, which equals its own conjugate transpose (the lemmas
  above, for every square \<open>A\<close>), and is meant to force \<open>negative_evals\<close> from there on.  The
  code sets only its local flag: the two auxiliary QFTs are built, but the \<open>negative_evals\<close>
  argument that reaches the constructor stays the caller's.  Here the caller gave
  \<open>hermitian_matrix = False\<close>, \<open>negative_evals = False\<close>, three ancillae and the matrix
  \<open>((0, i), (0, 0))\<close>.
\<close>

theorem forced_negative_evals_not_passed_on:
  "init_params component_num_qubits (example_params 3 False False) (Some [[0, \<i>], [0, 0]]) =
     Inr \<lparr>args_eigs = example_eigs 3 False False,
          args_operator = [[0, 0, 0, \<i>], [0, 0, 0, 0], [0, 0, 0, 0], [- \<i>, 0, 0, 0]],
          args_iqft = Some 3,
          args_ne_qfts = (Some (Some 2), Some (Some 2))\<rparr>
   \<and> eigs_negative_evals (example_eigs 3 False False) = False
   \<and> getH [[0, 0, 0, \<i>], [0, 0, 0, 0], [0, 0, 0, 0], [- \<i>, 0, 0, 0]] =
       [[0, 0, 0, \<i>], [0, 0, 0, 0], [0, 0, 0, 0], [- \<i>, 0, 0, 0]]"
  by (simp add: init_params_def hermitian_extension_example getH_example example_params_def
        example_eigs_def component_num_qubits_def Let_def)

text \<open>
  C3: when negative eigenvalues are asked for, or forced by a matrix that is not
  hermitian, every later derivation should see the caller's \<open>num_ancillae\<close> plus one.  In the
  code, with \<open>negative_evals = True\<close> and three ancillae the constructor gets four, but the
  inverse QFT is sized to three (and the auxiliary QFTs to two): the count is read again
  from the unchanged \<open>eigs\<close> section.  With \<open>hermitian_matrix = False\<close> and
  \<open>negative_evals = False\<close> the flag is forced after the increment was decided, so the count
  stays three.
\<close>

theorem ancilla_increment_missed:
  "init_params component_num_qubits (example_params 3 True True) (Some [[1]]) =
     Inr \<lparr>args_eigs = example_eigs 4 True True, args_operator = [[1]],
          args_iqft = Some 3,
          args_ne_qfts = (Some (Some 2), Some (Some 2))\<rparr>
   \<and> init_params component_num_qubits (example_params 3 False False) (Some [[0, 1], [0, 0]]) =
     Inr \<lparr>args_eigs = example_eigs 3 False False,
          args_operator = [[0, 0, 0, 1], [0, 0, 0, 0], [0, 0, 0, 0], [1, 0, 0, 0]],
          args_iqft = Some 3,
          args_ne_qfts = (Some (Some 2), Some (Some 2))\<rparr>"
  by (simp add: init_params_def hermitian_extension_def set_block_def broadcast_def getH_def shape0_def
        shape1_def zeros_def ndim_def upt_0_2 upt_0_4 eval_nat_numeral example_params_def
        example_eigs_def component_num_qubits_def Let_def)

end
